theory Spec2Isabelle
  imports Complex_Main "HOL-Library.AList" "HOL-Library.Sublist"
begin

section \<open>Python values, strings and dictionaries\<close>

text \<open>
  The attribute values of the knowledge graph and the entries of the JSON knowledge base
  are Python objects: \<open>None\<close>, booleans, integers, floats, strings, lists and
  dictionaries with string keys. A finite float is represented by the real number it
  denotes. A dictionary is an association list in insertion order whose keys are
  pairwise distinct.
\<close>

datatype pyval =
    VNone
  | VBool bool
  | VInt int
  | VFloat real
  | VStr string
  | VList "pyval list"
  | VDict "(string \<times> pyval) list"

type_synonym pydict = "(string \<times> pyval) list"

datatype error = TypeError | ValueError | IndexError | KeyError | AttributeError

text \<open>The number a numeric object denotes (\<open>bool\<close> is a subclass of \<open>int\<close>).\<close>

fun num_of :: "pyval \<Rightarrow> real option" where
  "num_of (VBool b) = Some (if b then 1 else 0)"
| "num_of (VInt i) = Some (real_of_int i)"
| "num_of (VFloat r) = Some r"
| "num_of _ = None"

text \<open>
  Python's \<open>==\<close>: numbers compare by value across \<open>bool\<close>, \<open>int\<close> and
  \<open>float\<close>, lists element by element, dictionaries as mappings (the order of the
  keys does not matter), and objects of different kinds are unequal.
\<close>

fun py_eq :: "pyval \<Rightarrow> pyval \<Rightarrow> bool" where
  "py_eq VNone w = (w = VNone)"
| "py_eq (VStr s) w = (w = VStr s)"
| "py_eq (VList xs) w =
     (case w of VList ys \<Rightarrow> list_all2 py_eq xs ys | _ \<Rightarrow> False)"
| "py_eq (VDict a) w =
     (case w of
        VDict b \<Rightarrow>
          length a = length b \<and>
          list_all (\<lambda>kv. case map_of b (fst kv) of
                            None \<Rightarrow> False
                          | Some x \<Rightarrow> py_eq (snd kv) x) a
      | _ \<Rightarrow> False)"
| "py_eq v w =
     (case num_of w of None \<Rightarrow> False | Some r \<Rightarrow> num_of v = Some r)"

text \<open>\<open>str.lower()\<close> on ASCII text.\<close>

definition lower_char :: "char \<Rightarrow> char" where
  "lower_char c =
     (case map_of (zip ''ABCDEFGHIJKLMNOPQRSTUVWXYZ'' ''abcdefghijklmnopqrstuvwxyz'') c of
        None \<Rightarrow> c
      | Some d \<Rightarrow> d)"

definition lower :: "string \<Rightarrow> string" where
  "lower s = map lower_char s"

text \<open>\<open>s.startswith(p)\<close> and the substring test \<open>q in s\<close>.\<close>

fun startswith :: "string \<Rightarrow> string \<Rightarrow> bool" where
  "startswith s [] = True"
| "startswith [] (p # ps) = False"
| "startswith (c # s) (p # ps) = (c = p \<and> startswith s ps)"

fun py_in :: "string \<Rightarrow> string \<Rightarrow> bool" where
  "py_in q [] = (q = [])"
| "py_in q (c # s) = (startswith (c # s) q \<or> py_in q s)"

text \<open>
  \<open>d.update(e)\<close>: every pair of \<open>e\<close> in turn replaces the value of a key that
  is present, in place, and is appended otherwise.
\<close>

definition dict_update :: "pydict \<Rightarrow> pydict \<Rightarrow> pydict" where
  "dict_update d e = fold (\<lambda>kv. AList.update (fst kv) (snd kv)) e d"

section \<open>The knowledge graph (knowledge\_graph.py)\<close>

text \<open>
  The \<open>networkx.MultiDiGraph\<close> of \<open>SRMKnowledgeGraph\<close>: the nodes with their
  attribute dictionaries in insertion order, and the edges with theirs.
\<close>

record graph =
  nodes :: "(string \<times> pydict) list"
  edges :: "(string \<times> string \<times> pydict) list"

definition empty_graph :: graph where
  "empty_graph = \<lparr>nodes = [], edges = []\<rparr>"

text \<open>
  \<open>add_node(n, **attr)\<close>: a new node gets a fresh attribute dictionary; the
  dictionary of a node that exists is updated and the node keeps its place.
\<close>

definition add_node :: "graph \<Rightarrow> string \<Rightarrow> pydict \<Rightarrow> graph" where
  "add_node g n attr =
     (case map_of (nodes g) n of
        None \<Rightarrow> g\<lparr>nodes := nodes g @ [(n, dict_update [] attr)]\<rparr>
      | Some a \<Rightarrow> g\<lparr>nodes := AList.update n (dict_update a attr) (nodes g)\<rparr>)"

text \<open>\<open>add_edge(u, v, **attr)\<close> creates the end points that are missing.\<close>

definition add_edge :: "graph \<Rightarrow> string \<Rightarrow> string \<Rightarrow> pydict \<Rightarrow> graph" where
  "add_edge g u v attr =
     (let g1 = (if map_of (nodes g) u = None then g\<lparr>nodes := nodes g @ [(u, [])]\<rparr> else g);
          g2 = (if map_of (nodes g1) v = None then g1\<lparr>nodes := nodes g1 @ [(v, [])]\<rparr> else g1)
      in g2\<lparr>edges := edges g2 @ [(u, v, attr)]\<rparr>)"

text \<open>
  \<open>add_entity\<close>: the call \<open>add_node(entity_id, type=entity_type, **attributes)\<close>.
  networkx declares \<open>add_node(self, node_for_adding, **attr)\<close>, so a key of
  \<open>attributes\<close> named \<open>type\<close>, \<open>self\<close> or \<open>node_for_adding\<close> gives one
  parameter two values and the call raises \<open>TypeError\<close>.
\<close>

definition add_entity :: "graph \<Rightarrow> string \<Rightarrow> string \<Rightarrow> pydict option \<Rightarrow> error + graph" where
  "add_entity g entity_id entity_type attributes =
     (let attrs = (case attributes of None \<Rightarrow> [] | Some a \<Rightarrow> a)
      in if ''type'' \<in> set (map fst attrs) \<or> ''self'' \<in> set (map fst attrs) \<or>
            ''node_for_adding'' \<in> set (map fst attrs)
         then Inl TypeError
         else Inr (add_node g entity_id ((''type'', VStr entity_type) # attrs)))"

definition add_relationship :: "graph \<Rightarrow> string \<Rightarrow> string \<Rightarrow> string \<Rightarrow> graph" where
  "add_relationship g from_entity to_entity relationship_type =
     add_edge g from_entity to_entity [(''relationship'', VStr relationship_type)]"

text \<open>The dictionary \<open>{'id': node_id, **attrs}\<close> that stands for a node in a result.\<close>

definition entity_dict :: "string \<times> pydict \<Rightarrow> pydict" where
  "entity_dict node = dict_update [(''id'', VStr (fst node))] (snd node)"

text \<open>
  \<open>query\<close>: the loop over \<open>graph.nodes(data=True)\<close>, with the list of results so
  far. The filters are tested against the attribute dictionary of the node.
\<close>

definition matches_filters :: "pydict \<Rightarrow> pydict \<Rightarrow> bool" where
  "matches_filters attrs filters =
     list_all (\<lambda>kv. case map_of attrs (fst kv) of
                       None \<Rightarrow> False
                     | Some x \<Rightarrow> py_eq x (snd kv)) filters"

definition type_differs :: "pydict \<Rightarrow> string \<Rightarrow> bool" where
  "type_differs attrs entity_type =
     (case map_of attrs ''type'' of
        None \<Rightarrow> True
      | Some t \<Rightarrow> \<not> py_eq t (VStr entity_type))"

definition filtered_out :: "pydict \<Rightarrow> pydict option \<Rightarrow> bool" where
  "filtered_out attrs filters =
     (case filters of
        None \<Rightarrow> False
      | Some fs \<Rightarrow> fs \<noteq> [] \<and> \<not> matches_filters attrs fs)"

fun query_loop ::
  "(string \<times> pydict) list \<Rightarrow> string \<Rightarrow> pydict option \<Rightarrow> pydict list \<Rightarrow> pydict list" where
  "query_loop [] entity_type filters results = results"
| "query_loop (node # rest) entity_type filters results =
     (if type_differs (snd node) entity_type then query_loop rest entity_type filters results
      else if filtered_out (snd node) filters then query_loop rest entity_type filters results
      else query_loop rest entity_type filters (results @ [entity_dict node]))"

definition query :: "graph \<Rightarrow> string \<Rightarrow> pydict option \<Rightarrow> pydict list" where
  "query g entity_type filters = query_loop (nodes g) entity_type filters []"

text \<open>
  \<open>search_by_text\<close>. \<open>str(v)\<close> of an element that is not a string is Python's
  rendering of it, the parameter \<open>render\<close>.
\<close>

definition py_str :: "(pyval \<Rightarrow> string) \<Rightarrow> pyval \<Rightarrow> string" where
  "py_str render v = (case v of VStr s \<Rightarrow> s | _ \<Rightarrow> render v)"

fun value_hit :: "(pyval \<Rightarrow> string) \<Rightarrow> string \<Rightarrow> pyval \<Rightarrow> bool" where
  "value_hit render q (VStr s) = py_in q (lower s)"
| "value_hit render q (VList vs) = list_ex (\<lambda>v. py_in q (lower (py_str render v))) vs"
| "value_hit render q (VDict kvs) =
     list_ex (\<lambda>v. py_in q (lower (py_str render v))) (map snd kvs)"
| "value_hit render q v = False"

text \<open>The inner loop over \<open>attrs.items()\<close>: it appends once and breaks.\<close>

fun attr_loop ::
  "(pyval \<Rightarrow> string) \<Rightarrow> string \<Rightarrow> string \<times> pydict \<Rightarrow> pydict \<Rightarrow> pydict list \<Rightarrow> pydict list" where
  "attr_loop render q node [] results = results"
| "attr_loop render q node (kv # rest) results =
     (if value_hit render q (snd kv) then results @ [entity_dict node]
      else attr_loop render q node rest results)"

fun search_loop ::
  "(pyval \<Rightarrow> string) \<Rightarrow> string \<Rightarrow> (string \<times> pydict) list \<Rightarrow> pydict list \<Rightarrow> pydict list" where
  "search_loop render q [] results = results"
| "search_loop render q (node # rest) results =
     (if py_in q (lower (fst node))
      then search_loop render q rest (results @ [entity_dict node])
      else search_loop render q rest (attr_loop render q node (snd node) results))"

definition search_by_text :: "(pyval \<Rightarrow> string) \<Rightarrow> graph \<Rightarrow> string \<Rightarrow> pydict list" where
  "search_by_text render g query_text = search_loop render (lower query_text) (nodes g) []"

text \<open>The test of the loop body of \<open>search_by_text\<close> that gets a node into the result.\<close>

definition node_hit :: "(pyval \<Rightarrow> string) \<Rightarrow> string \<Rightarrow> string \<times> pydict \<Rightarrow> bool" where
  "node_hit r q node =
     (py_in q (lower (fst node)) \<or> list_ex (\<lambda>kv. value_hit r q (snd kv)) (snd node))"

text \<open>Every attribute dictionary of the graph has pairwise distinct keys, as a Python
  dictionary has.\<close>

definition dicts_wf :: "graph \<Rightarrow> bool" where
  "dicts_wf g = list_all (\<lambda>n. distinct (map fst (snd n))) (nodes g)"

text \<open>Two small stores: one location with an address, and one location without attributes.\<close>

definition tech_park_store :: graph where
  "tech_park_store =
     \<lparr>nodes = [(''Tech Park'', [(''type'', VStr ''location''), (''address'', VStr ''SRM Nagar'')])],
      edges = []\<rparr>"

definition store0 :: graph where
  "store0 = \<lparr>nodes = [(''Tech Park'', [(''type'', VStr ''location'')])], edges = []\<rparr>"

section \<open>The admission handler (admission\_handler.py)\<close>

datatype AdmissionType = DOMESTIC | INTERNATIONAL | NRI | TRANSFER

record AdmissionRequirements =
  documents :: "string list"
  eligibility :: string
  contact_email :: string
  procedure :: string
  deadlines :: "(string \<times> string) list"

fun admission_requirements :: "AdmissionType \<Rightarrow> AdmissionRequirements" where
  "admission_requirements DOMESTIC =
     \<lparr>documents = [''10th Mark Sheet'', ''12th Mark Sheet'', ''SRMJEEE Score Card'',
                   ''Aadhar Card'', ''Passport size photographs''],
      eligibility = ''Minimum 60% in PCM for Engineering'',
      contact_email = ''admissions@srmist.edu.in'',
      procedure = ''Apply through SRMJEEE and counselling'',
      deadlines = [(''SRMJEEE Registration'', ''April 30''), (''Counselling'', ''June-July'')]\<rparr>"
| "admission_requirements INTERNATIONAL =
     \<lparr>documents = [''High School Transcripts'', ''Standardized Test Scores (SAT/ACT)'',
                   ''English Proficiency (IELTS/TOEFL)'', ''Passport'', ''Statement of Purpose''],
      eligibility = ''Completed 12 years of education with good academic record'',
      contact_email = ''admissions.ir@srmist.edu.in'',
      procedure = ''Apply through International Admissions Portal'',
      deadlines = [(''Fall Semester'', ''June 30''), (''Spring Semester'', ''December 15'')]\<rparr>"
| "admission_requirements NRI =
     \<lparr>documents = [''NRI Status Proof'', ''Passport copies'', ''Academic transcripts'',
                   ''Bank statements''],
      eligibility = ''NRI/NRI Sponsored candidates'',
      contact_email = ''nri.admissions@srmist.edu.in'',
      procedure = ''Direct admission through NRI quota'',
      deadlines = [(''Application'', ''May 31''), (''Admission'', ''June 30'')]\<rparr>"
| "admission_requirements TRANSFER =
     \<lparr>documents = [''Current University Transcripts'', ''No Objection Certificate'',
                   ''Migration Certificate'', ''Syllabus of completed courses''],
      eligibility = ''Completed at least one year at recognized university'',
      contact_email = ''transfer.admissions@srmist.edu.in'',
      procedure = ''Apply with complete transcripts for credit transfer'',
      deadlines = [(''Fall Transfer'', ''July 15''), (''Spring Transfer'', ''December 31'')]\<rparr>"

text \<open>\<open>any(word in query for word in words)\<close>.\<close>

definition any_word_in :: "string list \<Rightarrow> string \<Rightarrow> bool" where
  "any_word_in words query_text = list_ex (\<lambda>word. py_in word query_text) words"

text \<open>
  \<open>_determine_admission_type\<close>, of type \<open>Optional[AdmissionType]\<close>: the chain of
  \<open>if\<close>/\<open>elif\<close> and the default after it.
\<close>

definition determine_admission_type :: "string \<Rightarrow> AdmissionType option" where
  "determine_admission_type query_text =
     (if any_word_in [''international'', ''foreign'', ''abroad'', ''overseas''] query_text
        then Some INTERNATIONAL
      else if any_word_in [''nri'', ''non resident'', ''non-resident''] query_text
        then Some NRI
      else if any_word_in [''transfer'', ''change university'', ''credit transfer''] query_text
        then Some TRANSFER
      else if any_word_in [''domestic'', ''indian'', ''local'', ''srmjeee''] query_text
        then Some DOMESTIC
      else Some DOMESTIC)"

text \<open>Every keyword of the four tests.\<close>

definition type_keywords :: "string list" where
  "type_keywords =
     [''international'', ''foreign'', ''abroad'', ''overseas'',
      ''nri'', ''non resident'', ''non-resident'',
      ''transfer'', ''change university'', ''credit transfer'',
      ''domestic'', ''indian'', ''local'', ''srmjeee'']"

definition strs :: "string list \<Rightarrow> pyval" where
  "strs xs = VList (map VStr xs)"

definition unable_message :: string where
  "unable_message = ''Unable to determine admission type. Please specify if you're asking about domestic, international, NRI, or transfer admissions.''"

text \<open>
  \<open>handle_admission_query\<close>. A member of a plain \<open>Enum\<close> is true, so \<open>not
  admission_type\<close> holds for \<open>None\<close> alone. The five tests add their keys to the
  response in turn.
\<close>

definition add_if :: "bool \<Rightarrow> string \<Rightarrow> pyval \<Rightarrow> pydict \<Rightarrow> pydict" where
  "add_if b k v response = (if b then AList.update k v response else response)"

definition handle_admission_query :: "string \<Rightarrow> pydict" where
  "handle_admission_query query_text =
     (let q = lower query_text in
      case determine_admission_type q of
        None \<Rightarrow> [(''error'', VStr unable_message)]
      | Some admission_type \<Rightarrow>
          (let requirements = admission_requirements admission_type;
               docs = strs (documents requirements);
               dls = VDict (map (\<lambda>kv. (fst kv, VStr (snd kv))) (deadlines requirements));
               response =
                 add_if (any_word_in [''contact'', ''email'', ''reach''] q)
                     ''contact'' (VStr (contact_email requirements))
                   (add_if (any_word_in [''deadline'', ''date'', ''when''] q) ''deadlines'' dls
                     (add_if (any_word_in [''procedure'', ''process'', ''how to'', ''steps''] q)
                         ''procedure'' (VStr (procedure requirements))
                       (add_if (any_word_in [''eligible'', ''eligibility'', ''qualify''] q)
                           ''eligibility'' (VStr (eligibility requirements))
                         (add_if (any_word_in [''document'', ''require'', ''submit''] q)
                             ''documents'' docs []))))
           in if response = []
              then [(''documents'', docs),
                    (''eligibility'', VStr (eligibility requirements)),
                    (''procedure'', VStr (procedure requirements)),
                    (''deadlines'', dls),
                    (''contact'', VStr (contact_email requirements))]
              else response))"

section \<open>The query analyzer (nlu\_module.py)\<close>

text \<open>Whitespace as \<open>str.split()\<close>, \<open>str.strip()\<close> and the class \<open>\s\<close> see it in ASCII.\<close>

definition is_space :: "char \<Rightarrow> bool" where
  "is_space c =
     (c \<in> set [CHR '' '', CHR 0x09, CHR 0x0A, CHR 0x0B, CHR 0x0C, CHR 0x0D,
                CHR 0x1C, CHR 0x1D, CHR 0x1E, CHR 0x1F])"




fun join :: "string \<Rightarrow> string list \<Rightarrow> string" where
  "join sep [] = []"
| "join sep [w] = w"
| "join sep (w # ws) = w @ sep @ join sep ws"

definition strip :: "string \<Rightarrow> string" where
  "strip s = rev (dropWhile is_space (rev (dropWhile is_space s)))"













text \<open>\<open>is_followup_question\<close>. The parameter \<open>context\<close> (here \<open>ctx\<close>) is not read.\<close>

definition pronouns :: "string list" where
  "pronouns = [''it'', ''this'', ''that'', ''they'', ''these'', ''those'', ''there'']"

definition followup_phrases :: "string list" where
  "followup_phrases =
     [''what about'', ''how about'', ''tell me more'', ''and'', ''also'', ''what else'',
      ''more information'']"

definition conjunctions :: "string list" where
  "conjunctions = [''and'', ''but'', ''or'', ''so'']"

definition is_followup_question :: "string \<Rightarrow> pydict \<Rightarrow> bool" where
  "is_followup_question text0 ctx =
     (let t = lower text0;
          has_pronouns = list_ex (\<lambda>p. py_in ('' '' @ p @ '' '') ('' '' @ t @ '' '')) pronouns;
          has_followup = list_ex (\<lambda>phrase. py_in phrase t) followup_phrases;
          starts_with_conjunction = list_ex (\<lambda>conj. startswith t conj) conjunctions
      in has_pronouns \<or> has_followup \<or> starts_with_conjunction)"

text \<open>
  \<open>analyze_query\<close>. The result is the analysis, or the dictionary with the key
  \<open>error\<close> that the \<open>except\<close> branch returns.
\<close>

record analysis =
  original_query :: string
  processed_query :: string
  entities :: "string list"
  question_type :: string
  intent :: string
  is_followup :: bool
  context_used :: bool






subsection \<open>Embeddings and the fallback ranker\<close>

text \<open>
  The sentence encoder, scikit-learn's \<open>cosine_similarity\<close> and numpy's \<open>argsort\<close>
  are libraries: \<open>encode\<close> maps a list of texts to their embeddings or fails,
  \<open>cosine_similarity q es\<close> is the row of similarities of \<open>q\<close> with each of
  \<open>es\<close> or fails, \<open>zeros\<close> is \<open>np.zeros(384)\<close>, and \<open>argsort\<close> returns the
  indices of a list of scores.
\<close>

record 'e nlu_lib =
  encode :: "string list \<Rightarrow> error + 'e list"
  zeros :: 'e
  cosine_similarity :: "'e \<Rightarrow> 'e list \<Rightarrow> error + real list"
  argsort :: "real list \<Rightarrow> nat list"

text \<open>\<open>get_query_embedding\<close>: \<open>encode([text])[0]\<close>, and the zero vector on any fault.\<close>

definition get_query_embedding :: "'e nlu_lib \<Rightarrow> string \<Rightarrow> 'e" where
  "get_query_embedding lib text0 =
     (case encode lib [text0] of
        Inr (v # vs) \<Rightarrow> v
      | _ \<Rightarrow> zeros lib)"

text \<open>\<open>get_semantic_similarity\<close>: the similarity of two texts, and \<open>0.0\<close> on any fault.\<close>

definition get_semantic_similarity :: "'e nlu_lib \<Rightarrow> string \<Rightarrow> string \<Rightarrow> real" where
  "get_semantic_similarity lib text1 text2 =
     (case encode lib [text1] of
        Inr (embedding1 # r1) \<Rightarrow>
          (case encode lib [text2] of
             Inr (embedding2 # r2) \<Rightarrow>
               (case cosine_similarity lib embedding1 [embedding2] of
                  Inr (similarity # r3) \<Rightarrow> similarity
                | _ \<Rightarrow> 0)
           | _ \<Rightarrow> 0)
      | _ \<Rightarrow> 0)"

text \<open>The slice \<open>xs[s:]\<close>: a negative start counts from the end.\<close>

definition slice_from :: "int \<Rightarrow> 'a list \<Rightarrow> 'a list" where
  "slice_from s xs = drop (nat (if s < 0 then int (length xs) + s else s)) xs"

text \<open>
  \<open>find_best_matches\<close>. Every fault inside the \<open>try\<close> block, an index out of
  range included, ends in the \<open>except\<close> branch, which returns the empty list.
\<close>

definition find_best_matches ::
  "'e nlu_lib \<Rightarrow> string \<Rightarrow> string list \<Rightarrow> int \<Rightarrow> (string \<times> real) list" where
  "find_best_matches lib query_text candidates top_k =
     (let query_embedding = get_query_embedding lib query_text in
      case encode lib candidates of
        Inl e \<Rightarrow> []
      | Inr candidate_embeddings \<Rightarrow>
          (case cosine_similarity lib query_embedding candidate_embeddings of
             Inl e \<Rightarrow> []
           | Inr similarities \<Rightarrow>
               (let top_indices = rev (slice_from (- top_k) (argsort lib similarities))
                in if list_all (\<lambda>i. i < length candidates \<and> i < length similarities) top_indices
                   then map (\<lambda>i. (candidates ! i, similarities ! i)) top_indices
                   else [])))"

text \<open>
  A stable \<open>argsort\<close> (numpy sorts a short array by insertion), and a library whose
  similarities are read from a table of scores, for concrete runs.
\<close>

definition stable_argsort :: "real list \<Rightarrow> nat list" where
  "stable_argsort xs = map snd (sort_key fst (zip xs [0..<length xs]))"

definition table_lib :: "(string \<times> real) list \<Rightarrow> string nlu_lib" where
  "table_lib scores =
     \<lparr>encode = (\<lambda>texts. Inr texts),
      zeros = [],
      cosine_similarity =
        (\<lambda>q es. Inr (map (\<lambda>e. case map_of scores e of None \<Rightarrow> 0 | Some s \<Rightarrow> s) es)),
      argsort = stable_argsort\<rparr>"

definition tie_lib :: "string nlu_lib" where
  "tie_lib = table_lib [(''hostel fees'', 9 / 10), (''hostel rules'', 9 / 10)]"

definition ranked_lib :: "string nlu_lib" where
  "ranked_lib =
     table_lib [(''library hours'', 3 / 10), (''hostel fees'', 9 / 10),
                (''hostel rules'', 9 / 10), (''mess menu'', 7 / 10)]"








section \<open>The resolution engine (enhanced\_chatbot.py)\<close>

text \<open>
  The knowledge base is the dictionary loaded from the JSON file: for every category a
  dictionary from entity names to the attribute dictionaries of the entities, the shape
  that every access of the code assumes.
\<close>

type_synonym knowledge_base = "(string \<times> (string \<times> pydict) list) list"

text \<open>\<open>d.get(k)\<close> and \<open>d.get(k, default)\<close>.\<close>

definition dict_get :: "pydict \<Rightarrow> string \<Rightarrow> pyval" where
  "dict_get d k = (case map_of d k of None \<Rightarrow> VNone | Some v \<Rightarrow> v)"

definition dict_get_or :: "pydict \<Rightarrow> string \<Rightarrow> pyval \<Rightarrow> pyval" where
  "dict_get_or d k dflt = (case map_of d k of None \<Rightarrow> dflt | Some v \<Rightarrow> v)"

text \<open>
  Python's \<open>+\<close>: lists and strings are concatenated, numbers are added (the sum of two
  floats is taken without rounding; no statement below reads it), and every other pair
  of operands raises \<open>TypeError\<close>.
\<close>

fun int_of :: "pyval \<Rightarrow> int option" where
  "int_of (VBool b) = Some (if b then 1 else 0)"
| "int_of (VInt i) = Some i"
| "int_of _ = None"

definition py_add :: "pyval \<Rightarrow> pyval \<Rightarrow> error + pyval" where
  "py_add v w =
     (case (v, w) of
        (VList xs, VList ys) \<Rightarrow> Inr (VList (xs @ ys))
      | (VStr s, VStr t) \<Rightarrow> Inr (VStr (s @ t))
      | _ \<Rightarrow>
          (case (int_of v, int_of w) of
             (Some a, Some b) \<Rightarrow> Inr (VInt (a + b))
           | _ \<Rightarrow>
               (case (num_of v, num_of w) of
                  (Some a, Some b) \<Rightarrow> Inr (VFloat (a + b))
                | _ \<Rightarrow> Inl TypeError)))"

definition is_dict :: "pyval \<Rightarrow> bool" where
  "is_dict v = (case v of VDict d \<Rightarrow> True | _ \<Rightarrow> False)"

text \<open>
  The body of the loop of \<open>_get_entity_info\<close> for the category that holds the entity:
  the response starts with type, entity and confidence \<open>1.0\<close>, and is updated with the
  fields that the intent selects.
\<close>

definition entity_response :: "string \<Rightarrow> string \<Rightarrow> string \<Rightarrow> pydict \<Rightarrow> error + pydict" where
  "entity_response category entity wanted entity_data =
     (let response = [(''type'', VStr wanted), (''entity'', VStr entity),
                      (''confidence'', VFloat 1)]
      in if wanted = ''location'' then
           Inr (dict_update response
                  [(''address'', dict_get entity_data ''address''),
                   (''location'', dict_get entity_data ''location''),
                   (''map_link'', dict_get entity_data ''map_link'')])
         else if wanted = ''description'' then
           Inr (dict_update response
                  [(''description'', dict_get entity_data ''description''),
                   (''type_info'', dict_get entity_data ''type''),
                   (''category'', VStr category)])
         else if wanted = ''facilities'' then
           (case py_add (dict_get_or entity_data ''facilities'' (VList []))
                        (dict_get_or entity_data ''amenities'' (VList [])) of
              Inl e \<Rightarrow> Inl e
            | Inr fs \<Rightarrow>
                Inr (dict_update response
                       [(''facilities'', fs),
                        (''description'', dict_get entity_data ''description'')]))
         else if wanted = ''contact'' then
           Inr (dict_update response
                  [(''contact'', dict_get entity_data ''contact''),
                   (''additional_info'', dict_get entity_data ''description'')])
         else
           Inr (dict_update response
                  (filter (\<lambda>kv. fst kv \<notin> set [''id'', ''type''] \<and> \<not> is_dict (snd kv))
                     entity_data)))"

text \<open>\<open>_get_entity_info\<close>: the first category that has the entity as a key answers.\<close>

fun get_entity_info :: "knowledge_base \<Rightarrow> string \<Rightarrow> string \<Rightarrow> error + pydict" where
  "get_entity_info [] entity wanted = Inr [(''confidence'', VFloat 0)]"
| "get_entity_info (cat # rest) entity wanted =
     (case map_of (snd cat) entity of
        Some entity_data \<Rightarrow> entity_response (fst cat) entity wanted entity_data
      | None \<Rightarrow> get_entity_info rest entity wanted)"

text \<open>
  The test \<open>response.get('confidence', 0) > 0.6\<close>: a number is compared, any other
  object raises \<open>TypeError\<close>.
\<close>

definition confident :: "pydict \<Rightarrow> error + bool" where
  "confident response =
     (case map_of response ''confidence'' of
        None \<Rightarrow> Inr False
      | Some v \<Rightarrow> (case num_of v of None \<Rightarrow> Inl TypeError | Some c \<Rightarrow> Inr (c > 6 / 10)))"

text \<open>
  The loop over the entities in \<open>_find_best_match\<close>: the response of the first entity
  whose lookup is confident, \<open>None\<close> when the loop ends without one.
\<close>

fun entity_matches :: "knowledge_base \<Rightarrow> string list \<Rightarrow> string \<Rightarrow> error + pydict option" where
  "entity_matches kb [] wanted = Inr None"
| "entity_matches kb (entity # rest) wanted =
     (case get_entity_info kb entity wanted of
        Inl e \<Rightarrow> Inl e
      | Inr response \<Rightarrow>
          (case confident response of
             Inl e \<Rightarrow> Inl e
           | Inr True \<Rightarrow> Inr (Some response)
           | Inr False \<Rightarrow> entity_matches kb rest wanted))"

text \<open>
  \<open>_get_candidate_responses\<close>. An f-string renders a value with \<open>str\<close>; \<open>', '.join\<close>
  takes the strings of a list, the characters of a string or the keys of a dictionary,
  and raises \<open>TypeError\<close> on anything else.
\<close>

fun str_items :: "pyval list \<Rightarrow> error + string list" where
  "str_items [] = Inr []"
| "str_items (VStr s # vs) = (case str_items vs of Inl e \<Rightarrow> Inl e | Inr ss \<Rightarrow> Inr (s # ss))"
| "str_items (v # vs) = Inl TypeError"

definition join_value :: "string \<Rightarrow> pyval \<Rightarrow> error + string" where
  "join_value sep v =
     (case v of
        VList vs \<Rightarrow> (case str_items vs of Inl e \<Rightarrow> Inl e | Inr ss \<Rightarrow> Inr (join sep ss))
      | VStr s \<Rightarrow> Inr (join sep (map (\<lambda>c. [c]) s))
      | VDict d \<Rightarrow> Inr (join sep (map fst d))
      | _ \<Rightarrow> Inl TypeError)"

definition entity_candidates ::
  "(pyval \<Rightarrow> string) \<Rightarrow> string \<times> pydict \<Rightarrow> error + string list" where
  "entity_candidates render item =
     (let entity = fst item; data = snd item;
          c1 = [entity @ '': '' @ py_str render (dict_get_or data ''description'' (VStr []))];
          c3 = (case map_of data ''address'' of
                  None \<Rightarrow> []
                | Some a \<Rightarrow> [entity @ '' is located at '' @ py_str render a]);
          c4 = (case map_of data ''contact'' of
                  None \<Rightarrow> []
                | Some (VDict contact_info) \<Rightarrow>
                    [''Contact '' @ entity @ '': '' @
                       join '', '' (map (\<lambda>kv. fst kv @ '': '' @ py_str render (snd kv)) contact_info)]
                | Some contact_info \<Rightarrow> [''Contact '' @ entity @ '': '' @ py_str render contact_info])
      in case map_of data ''facilities'' of
           None \<Rightarrow> Inr (c1 @ c3 @ c4)
         | Some f \<Rightarrow>
             (case join_value '', '' f of
                Inl e \<Rightarrow> Inl e
              | Inr fs \<Rightarrow> Inr (c1 @ [entity @ '' facilities: '' @ fs] @ c3 @ c4)))"

fun collect :: "('a \<Rightarrow> error + 'b list) \<Rightarrow> 'a list \<Rightarrow> error + 'b list" where
  "collect f [] = Inr []"
| "collect f (x # xs) =
     (case f x of
        Inl e \<Rightarrow> Inl e
      | Inr ys \<Rightarrow> (case collect f xs of Inl e \<Rightarrow> Inl e | Inr zs \<Rightarrow> Inr (ys @ zs)))"

definition get_candidate_responses ::
  "(pyval \<Rightarrow> string) \<Rightarrow> knowledge_base \<Rightarrow> error + string list" where
  "get_candidate_responses render kb =
     collect (\<lambda>cat. collect (entity_candidates render) (snd cat)) kb"

text \<open>\<open>_format_candidate_response\<close>, with \<open>candidate.split(':', 1)\<close>.\<close>

fun split_first :: "char \<Rightarrow> string \<Rightarrow> string list" where
  "split_first c [] = [[]]"
| "split_first c (x # xs) =
     (if x = c then [[], xs]
      else (case split_first c xs of
              [] \<Rightarrow> [[x]]
            | w # ws \<Rightarrow> (x # w) # ws))"

definition format_candidate_response :: "string \<Rightarrow> real \<Rightarrow> pydict" where
  "format_candidate_response candidate confidence =
     (let parts = split_first CHR '':'' candidate;
          entity = (case parts of [] \<Rightarrow> [] | p0 # ps \<Rightarrow> strip p0);
          info = (case parts of p0 # p1 # ps \<Rightarrow> strip p1 | _ \<Rightarrow> []);
          response_type =
            (if py_in ''located at'' candidate then ''location''
             else if py_in ''facilities'' candidate then ''facilities''
             else if py_in ''Contact'' candidate then ''contact''
             else ''description'')
      in [(''type'', VStr response_type), (''entity'', VStr entity),
          (''description'', VStr info), (''confidence'', VFloat confidence)])"

text \<open>
  \<open>_generate_fallback_response\<close>. The entities of the knowledge base that are similar
  to an entity of the query, the stable sort by descending similarity, and the
  suggestions. The context fetched at its start is not read.
\<close>

definition similar_entities :: "'e nlu_lib \<Rightarrow> knowledge_base \<Rightarrow> analysis \<Rightarrow> (string \<times> real) list" where
  "similar_entities lib kb a =
     concat (map (\<lambda>entity.
       concat (map (\<lambda>cat.
         concat (map (\<lambda>kb_entity.
           (let similarity = get_semantic_similarity lib entity kb_entity
            in if similarity > 5 / 10 then [(kb_entity, similarity)] else []))
           (map fst (snd cat))))
         kb))
       (entities a))"

definition generic_suggestions :: "string list" where
  "generic_suggestions =
     [''Tell me about the Kattankulathur Campus'',
      ''What facilities are available in Tech Park?'',
      ''How can I contact the admissions office?'',
      ''What are the hostel facilities?'',
      ''Where is the Central Library?'']"

definition entity_suggestions :: "string \<Rightarrow> string list" where
  "entity_suggestions entity =
     [''What is '' @ entity @ ''?'',
      ''Tell me about '' @ entity,
      ''Where is '' @ entity @ '' located?'']"

definition fallback_message :: string where
  "fallback_message = ''I'm not quite sure about that. Here are some related questions you might be interested in:''"

definition generate_fallback_response :: "'e nlu_lib \<Rightarrow> knowledge_base \<Rightarrow> analysis \<Rightarrow> pydict" where
  "generate_fallback_response lib kb a =
     (let ranked = sort_key (\<lambda>x. - snd x) (similar_entities lib kb a);
          suggestions =
            (if ranked \<noteq> []
             then concat (map (\<lambda>x. entity_suggestions (fst x)) (take 3 ranked))
             else generic_suggestions)
      in [(''type'', VStr ''fallback''),
          (''message'', VStr fallback_message),
          (''suggestions'', strs (take 5 suggestions)),
          (''confidence'', VFloat 0)])"

text \<open>
  \<open>_find_best_match\<close>: the entities in extraction order, then the semantic search over
  the candidates with \<open>top_k = 3\<close>, then the fallback.
\<close>

definition find_best_match ::
  "'e nlu_lib \<Rightarrow> (pyval \<Rightarrow> string) \<Rightarrow> knowledge_base \<Rightarrow> analysis \<Rightarrow> error + pydict" where
  "find_best_match lib render kb a =
     (case entity_matches kb (entities a) (intent a) of
        Inl e \<Rightarrow> Inl e
      | Inr (Some response) \<Rightarrow> Inr response
      | Inr None \<Rightarrow>
          (case get_candidate_responses render kb of
             Inl e \<Rightarrow> Inl e
           | Inr candidates \<Rightarrow>
               if candidates = [] then Inr (generate_fallback_response lib kb a)
               else
                 (case find_best_matches lib (processed_query a) candidates 3 of
                    [] \<Rightarrow> Inr (generate_fallback_response lib kb a)
                  | best # others \<Rightarrow>
                      if snd best > 6 / 10
                      then Inr (format_candidate_response (fst best) (snd best))
                      else Inr (generate_fallback_response lib kb a))))"

text \<open>A knowledge base whose entity carries an attribute named \<open>confidence\<close>.\<close>

definition scored_kb :: knowledge_base where
  "scored_kb = [(''locations'', [(''Tech Park'', [(''confidence'', VInt 0)])])]"

definition plain_kb :: knowledge_base where
  "plain_kb =
     [(''locations'',
        [(''Tech Park'', [(''address'', VStr ''SRM Nagar''), (''location'', VStr ''Kattankulathur'')]),
         (''Central Library'', [(''address'', VStr ''SRM Nagar'')])])]"

definition tech_park_query :: analysis where
  "tech_park_query =
     \<lparr>original_query = ''Tech Park fees'',
      processed_query = ''tech park fees'',
      entities = [''Tech Park''],
      question_type = ''other'',
      intent = ''general'',
      is_followup = False,
      context_used = False\<rparr>"

text \<open>
  A query about \<open>Library\<close>, an entity that the knowledge base does not hold, and two
  similarity tables: one puts \<open>Central Library\<close> on the floor of \<open>0.5\<close>, the other
  above it.
\<close>

definition library_query :: analysis where
  "library_query =
     \<lparr>original_query = ''Library fees'',
      processed_query = ''library fees'',
      entities = [''Library''],
      question_type = ''other'',
      intent = ''general'',
      is_followup = False,
      context_used = False\<rparr>"

definition floor_lib :: "string nlu_lib" where
  "floor_lib = table_lib [(''Tech Park'', 3 / 10), (''Central Library'', 5 / 10)]"

definition near_lib :: "string nlu_lib" where
  "near_lib = table_lib [(''Tech Park'', 3 / 10), (''Central Library'', 11 / 20)]"

section \<open>The session context store\<close>

text \<open>
  Modelled from the spec: the module context\_manager.py (\<open>ContextManager\<close> with
  \<open>update_context\<close>) is not among the sources. Section 4.3 of the specification gives
  \<open>update(session_id, query, analysis, response)\<close>: it appends a conversation turn and,
  only when the response carries a resolved entity and intent with a confidence above
  the acceptance threshold \<open>0.6\<close>, overwrites \<open>current_entity\<close> and
  \<open>current_intent\<close> and adds the entity to \<open>referenced_entities\<close>. The operation
  is given on the context of the session; the time stamp is the reading of the clock.
\<close>

record ConversationTurn =
  turn_query :: string
  timestamp :: string
  turn_analysis :: analysis
  turn_response :: pydict

record SessionContext =
  history :: "ConversationTurn list"
  current_entity :: "string option"
  current_intent :: "string option"
  referenced_entities :: "string set"
  followup_context :: "(string \<times> string) list"

definition acceptance_threshold :: real where
  "acceptance_threshold = 6 / 10"

text \<open>The entity and the intent that a response resolves with an accepted confidence.\<close>

definition resolved :: "pydict \<Rightarrow> (string \<times> string) option" where
  "resolved response =
     (case (map_of response ''entity'', map_of response ''type'', map_of response ''confidence'') of
        (Some (VStr entity), Some (VStr i), Some c) \<Rightarrow>
          (case num_of c of
             Some x \<Rightarrow> if x > acceptance_threshold then Some (entity, i) else None
           | None \<Rightarrow> None)
      | _ \<Rightarrow> None)"

definition update :: "SessionContext \<Rightarrow> string \<Rightarrow> string \<Rightarrow> analysis \<Rightarrow> pydict \<Rightarrow> SessionContext" where
  "update ctx now q a response =
     (let turn = \<lparr>turn_query = q, timestamp = now, turn_analysis = a, turn_response = response\<rparr>;
          ctx1 = ctx\<lparr>history := history ctx @ [turn]\<rparr>
      in case resolved response of
           None \<Rightarrow> ctx1
         | Some (entity, i) \<Rightarrow>
             ctx1\<lparr>current_entity := Some entity,
                  current_intent := Some i,
                  referenced_entities := insert entity (referenced_entities ctx1)\<rparr>)"





section \<open>Properties of the knowledge graph\<close>

lemma py_in_empty: "py_in [] s"
  by (induction s) simp_all

subsection \<open>\<open>query\<close>\<close>

text \<open>
  The loop of \<open>query\<close> is a filter: the result holds, in insertion order, the
  dictionary of every node whose type is the one asked for and whose attributes match
  all the filters; it is the empty list when there is none.
\<close>

lemma query_loop_filter:
  "query_loop ns t f acc =
     acc @ map entity_dict
             (filter (\<lambda>n. \<not> type_differs (snd n) t \<and> \<not> filtered_out (snd n) f) ns)"
  by (induction ns arbitrary: acc) simp_all

lemma query_filter:
  "query g t f =
     map entity_dict
       (filter (\<lambda>n. \<not> type_differs (snd n) t \<and> \<not> filtered_out (snd n) f) (nodes g))"
  by (simp add: query_def query_loop_filter)

lemma no_id_filtered_out:
  "map_of a ''id'' = None \<Longrightarrow> filtered_out a (Some ((''id'', v) # fs))"
  by (simp add: filtered_out_def matches_filters_def)

lemma query_id_empty:
  assumes "list_all (\<lambda>n. map_of (snd n) ''id'' = None) (nodes g)"
  shows "query g t (Some ((''id'', v) # fs)) = []"
  using assms unfolding query_filter
  by (induction "nodes g" arbitrary: g) (auto simp: no_id_filtered_out list_all_iff filter_empty_conv)

text \<open>
  Claim C1. \<open>query(t, {"id": id})\<close> is claimed to return exactly the entity that was
  added under \<open>id\<close> with type \<open>t\<close>. The loop tests the filters against the attribute
  dictionary of the node, which holds the key \<open>id\<close> only when the caller stored an
  attribute of that name; the identifier of the node is put into the result dictionary
  alone. So the store that \<open>add_entity("Tech Park", "location", {"address": "SRM Nagar"})\<close>
  builds from the empty graph answers \<open>query("location", {"id": "Tech Park"})\<close> with the
  empty list, while the query without filters returns the entity.
\<close>

theorem query_by_id_finds_nothing:
  "add_entity empty_graph ''Tech Park'' ''location'' (Some [(''address'', VStr ''SRM Nagar'')])
     = Inr tech_park_store \<and>
   query tech_park_store ''location'' (Some [(''id'', VStr ''Tech Park'')]) = [] \<and>
   query tech_park_store ''location'' None =
     [[(''id'', VStr ''Tech Park''), (''type'', VStr ''location''), (''address'', VStr ''SRM Nagar'')]]"
  by (simp add: add_entity_def add_node_def empty_graph_def dict_update_def tech_park_store_def
      query_def type_differs_def filtered_out_def matches_filters_def entity_dict_def)

subsection \<open>\<open>add_entity\<close>\<close>

lemma keys_dict_update: "fst ` set (dict_update d e) = fst ` set d \<union> fst ` set e"
  unfolding dict_update_def
  by (induction e arbitrary: d) (auto simp: AList.dom_update)

lemma distinct_dict_update: "distinct (map fst d) \<Longrightarrow> distinct (map fst (dict_update d e))"
  unfolding dict_update_def
  by (induction e arbitrary: d) (simp_all add: AList.distinct_update)

lemma map_of_dict_update: "map_of (dict_update d e) = map_of d ++ map_of (rev e)"
  unfolding dict_update_def
  by (induction e arbitrary: d) (auto simp: AList.update_conv' fun_eq_iff map_add_def split: option.splits)

lemma keys_dict_update_same:
  "fst ` set e \<subseteq> fst ` set d \<Longrightarrow> map fst (dict_update d e) = map fst d"
  unfolding dict_update_def
proof (induction e arbitrary: d)
  case Nil
  then show ?case by simp
next
  case (Cons kv e)
  from Cons.prems have k: "fst kv \<in> fst ` set d" by simp
  then have keys: "map fst (AList.update (fst kv) (snd kv) d) = map fst d"
    by (simp add: AList.update_keys)
  from Cons.prems have "fst ` set e \<subseteq> fst ` set (AList.update (fst kv) (snd kv) d)"
    by (auto simp: AList.dom_update)
  from Cons.IH [OF this] keys show ?case by simp
qed

lemma alist_ext:
  "map fst xs = map fst ys \<Longrightarrow> distinct (map fst xs) \<Longrightarrow> map_of xs = map_of ys \<Longrightarrow> xs = ys"
proof (induction xs arbitrary: ys)
  case Nil
  then show ?case by simp
next
  case (Cons x xs)
  then obtain y ys' where ys: "ys = y # ys'" by (cases ys) auto
  with Cons.prems have k: "fst x = fst y" and ks: "map fst xs = map fst ys'" by auto
  from Cons.prems(3) ys have "map_of (x # xs) (fst x) = map_of (y # ys') (fst x)"
    by (simp only:)
  with k have v: "snd x = snd y" by simp
  have "map_of xs = map_of ys'"
  proof
    fix z
    show "map_of xs z = map_of ys' z"
    proof (cases "z = fst x")
      case True
      with Cons.prems(2) have "z \<notin> fst ` set xs" by auto
      moreover from this ks have "z \<notin> fst ` set ys'" by (metis set_map)
      ultimately have "map_of xs z = None" and "map_of ys' z = None"
        by (simp_all add: map_of_eq_None_iff)
      then show ?thesis by simp
    next
      case False
      from Cons.prems(3) ys have "map_of (x # xs) z = map_of (y # ys') z"
        by (simp only:)
      with False k show ?thesis by simp
    qed
  qed
  with Cons.IH ks Cons.prems(2) have "xs = ys'" by simp
  with k v ys show ?case by (simp add: prod_eq_iff)
qed

lemma dict_update_idem:
  assumes "distinct (map fst d)"
  shows "dict_update (dict_update d e) e = dict_update d e"
proof (rule alist_ext)
  show "map fst (dict_update (dict_update d e) e) = map fst (dict_update d e)"
    by (rule keys_dict_update_same) (simp add: keys_dict_update)
  show "distinct (map fst (dict_update (dict_update d e) e))"
    using assms by (simp add: distinct_dict_update)
  show "map_of (dict_update (dict_update d e) e) = map_of (dict_update d e)"
    unfolding map_of_dict_update
    by (auto simp: map_add_def fun_eq_iff split: option.splits)
qed


lemma map_of_nodes_add_node:
  "map_of (nodes (add_node g n kw)) n =
     Some (dict_update (case map_of (nodes g) n of None \<Rightarrow> [] | Some a \<Rightarrow> a) kw)"
  by (cases "map_of (nodes g) n") (simp_all add: add_node_def AList.update_conv' map_add_def)

lemma dicts_wf_lookup: "dicts_wf g \<Longrightarrow> map_of (nodes g) n = Some a \<Longrightarrow> distinct (map fst a)"
proof -
  assume "dicts_wf g" and "map_of (nodes g) n = Some a"
  then have "(n, a) \<in> set (nodes g)" and "\<forall>x\<in>set (nodes g). distinct (map fst (snd x))"
    by (auto simp: dicts_wf_def list_all_iff dest: map_of_SomeD)
  then show ?thesis by fastforce
qed

lemma add_node_idem:
  assumes "dicts_wf g"
  shows "add_node (add_node g n kw) n kw = add_node g n kw"
proof -
  let ?a = "case map_of (nodes g) n of None \<Rightarrow> [] | Some a \<Rightarrow> a"
  have d: "distinct (map fst ?a)"
    using assms by (auto split: option.splits dest: dicts_wf_lookup)
  have look: "map_of (nodes (add_node g n kw)) n = Some (dict_update ?a kw)"
    by (rule map_of_nodes_add_node)
  have "add_node (add_node g n kw) n kw =
          (add_node g n kw)\<lparr>nodes :=
             AList.update n (dict_update (dict_update ?a kw) kw) (nodes (add_node g n kw))\<rparr>"
    using look by (simp add: add_node_def [of "add_node g n kw"])
  also have "\<dots> = (add_node g n kw)\<lparr>nodes := nodes (add_node g n kw)\<rparr>"
    using look d by (simp add: dict_update_idem AList.update_triv)
  finally show ?thesis by simp
qed

lemma type_after_update:
  assumes "''type'' \<notin> fst ` set attrs"
  shows "map_of (dict_update a ((''type'', VStr t) # attrs)) ''type'' = Some (VStr t)"
proof -
  from assms have "map_of (rev attrs) ''type'' = None"
    by (simp add: map_of_eq_None_iff)
  then show ?thesis
    by (simp add: map_of_dict_update map_add_def)
qed

text \<open>
  Claim C2, as amended. \<open>add_entity\<close> has no duplicate check. It raises
  \<open>TypeError\<close> when \<open>attributes\<close> has a key \<open>type\<close>, \<open>self\<close> or
  \<open>node_for_adding\<close>, and that is its only failure: otherwise, on an identifier that
  is present, whatever its stored type, the call succeeds, the stored type becomes the
  new one, and adding the same entity once more leaves the store as it is.
\<close>

theorem add_entity_overwrites_type:
  assumes "dicts_wf g"
  shows "((''type'' \<in> fst ` set (case attributes of None \<Rightarrow> [] | Some a \<Rightarrow> a) \<or>
           ''self'' \<in> fst ` set (case attributes of None \<Rightarrow> [] | Some a \<Rightarrow> a) \<or>
           ''node_for_adding'' \<in> fst ` set (case attributes of None \<Rightarrow> [] | Some a \<Rightarrow> a))
            \<longrightarrow> add_entity g entity_id entity_type attributes = Inl TypeError) \<and>
         (''type'' \<notin> fst ` set (case attributes of None \<Rightarrow> [] | Some a \<Rightarrow> a) \<and>
          ''self'' \<notin> fst ` set (case attributes of None \<Rightarrow> [] | Some a \<Rightarrow> a) \<and>
          ''node_for_adding'' \<notin> fst ` set (case attributes of None \<Rightarrow> [] | Some a \<Rightarrow> a)
            \<longrightarrow> (\<exists>g'. add_entity g entity_id entity_type attributes = Inr g' \<and>
                   (\<exists>a. map_of (nodes g') entity_id = Some a \<and>
                        map_of a ''type'' = Some (VStr entity_type)) \<and>
                   add_entity g' entity_id entity_type attributes = Inr g'))"
proof (intro conjI impI)
  let ?attrs = "case attributes of None \<Rightarrow> [] | Some a \<Rightarrow> a"
  assume "''type'' \<in> fst ` set ?attrs \<or> ''self'' \<in> fst ` set ?attrs \<or>
          ''node_for_adding'' \<in> fst ` set ?attrs"
  then show "add_entity g entity_id entity_type attributes = Inl TypeError"
    by (simp add: add_entity_def)
next
  let ?attrs = "case attributes of None \<Rightarrow> [] | Some a \<Rightarrow> a"
  let ?kw = "(''type'', VStr entity_type) # ?attrs"
  let ?g' = "add_node g entity_id ?kw"
  assume free: "''type'' \<notin> fst ` set ?attrs \<and> ''self'' \<notin> fst ` set ?attrs \<and>
                ''node_for_adding'' \<notin> fst ` set ?attrs"
  then have ty: "''type'' \<notin> fst ` set ?attrs" by (rule conjunct1)
  from free have ok: "\<And>h. add_entity h entity_id entity_type attributes =
      Inr (add_node h entity_id ?kw)"
    by (simp add: add_entity_def)
  have "map_of (nodes ?g') entity_id =
          Some (dict_update (case map_of (nodes g) entity_id of None \<Rightarrow> [] | Some a \<Rightarrow> a) ?kw)"
    by (rule map_of_nodes_add_node)
  moreover have "map_of (dict_update (case map_of (nodes g) entity_id of None \<Rightarrow> [] | Some a \<Rightarrow> a) ?kw)
                   ''type'' = Some (VStr entity_type)"
    using ty by (rule type_after_update)
  moreover have "add_entity ?g' entity_id entity_type attributes = Inr ?g'"
    using assms(1) by (simp add: ok add_node_idem)
  ultimately show "\<exists>g'. add_entity g entity_id entity_type attributes = Inr g' \<and>
                   (\<exists>a. map_of (nodes g') entity_id = Some a \<and>
                        map_of a ''type'' = Some (VStr entity_type)) \<and>
                   add_entity g' entity_id entity_type attributes = Inr g'"
    using ok by blast
qed

text \<open>
  The claim as stated fails on a store that holds \<open>Tech Park\<close> as a location: adding
  it as a campus raises nothing and overwrites the type.
\<close>

theorem add_entity_conflicting_type_succeeds:
  "map_of (nodes store0) ''Tech Park'' = Some [(''type'', VStr ''location'')] \<and>
   add_entity store0 ''Tech Park'' ''campus'' None =
     Inr \<lparr>nodes = [(''Tech Park'', [(''type'', VStr ''campus'')])], edges = []\<rparr>"
  by (simp add: store0_def add_entity_def add_node_def dict_update_def)

theorem add_entity_overwrites_type_witness:
  "dicts_wf store0 \<and>
   (\<exists>g'. add_entity store0 ''Tech Park'' ''campus'' None = Inr g' \<and>
      (\<exists>a. map_of (nodes g') ''Tech Park'' = Some a \<and> map_of a ''type'' = Some (VStr ''campus'')) \<and>
      add_entity g' ''Tech Park'' ''campus'' None = Inr g') \<and>
   add_entity store0 ''Tech Park'' ''campus'' (Some [(''self'', VStr ''x'')]) = Inl TypeError \<and>
   add_entity store0 ''Tech Park'' ''campus'' (Some [(''node_for_adding'', VStr ''x'')])
     = Inl TypeError \<and>
   add_entity store0 ''Tech Park'' ''campus'' (Some [(''type'', VStr ''x'')]) = Inl TypeError"
proof -
  have w: "dicts_wf store0" by (simp add: dicts_wf_def store0_def)
  from add_entity_overwrites_type [OF w, of None "''Tech Park''" "''campus''"]
  have a: "\<exists>g'. add_entity store0 ''Tech Park'' ''campus'' None = Inr g' \<and>
      (\<exists>a. map_of (nodes g') ''Tech Park'' = Some a \<and> map_of a ''type'' = Some (VStr ''campus'')) \<and>
      add_entity g' ''Tech Park'' ''campus'' None = Inr g'"
    by simp
  from add_entity_overwrites_type [OF w, of "Some [(''self'', VStr ''x'')]" "''Tech Park''" "''campus''"]
  have b: "add_entity store0 ''Tech Park'' ''campus'' (Some [(''self'', VStr ''x'')]) = Inl TypeError"
    by simp
  from add_entity_overwrites_type
         [OF w, of "Some [(''node_for_adding'', VStr ''x'')]" "''Tech Park''" "''campus''"]
  have c: "add_entity store0 ''Tech Park'' ''campus'' (Some [(''node_for_adding'', VStr ''x'')])
             = Inl TypeError"
    by simp
  from add_entity_overwrites_type [OF w, of "Some [(''type'', VStr ''x'')]" "''Tech Park''" "''campus''"]
  have d: "add_entity store0 ''Tech Park'' ''campus'' (Some [(''type'', VStr ''x'')]) = Inl TypeError"
    by simp
  from w a b c d show ?thesis by blast
qed

subsection \<open>\<open>search_by_text\<close>\<close>

lemma attr_loop_once:
  "attr_loop r q node kvs acc =
     acc @ (if list_ex (\<lambda>kv. value_hit r q (snd kv)) kvs then [entity_dict node] else [])"
  by (induction kvs) simp_all

lemma search_loop_filter:
  "search_loop r q ns acc = acc @ map entity_dict (filter (node_hit r q) ns)"
  by (induction ns arbitrary: acc) (simp_all add: attr_loop_once node_hit_def)

text \<open>
  Claim C10. The empty query returns the dictionary of every node, once each and in the
  order of the graph; for every query the result is made from a subsequence of the
  nodes, so no node contributes twice, however many of its attributes match.
\<close>

theorem search_by_text_each_node_once:
  "search_by_text render g [] = map entity_dict (nodes g) \<and>
   (\<exists>ns. subseq ns (nodes g) \<and> search_by_text render g q = map entity_dict ns)"
proof
  show "search_by_text render g [] = map entity_dict (nodes g)"
    by (simp add: search_by_text_def search_loop_filter node_hit_def lower_def py_in_empty)
  have "subseq (filter (node_hit render (lower q)) (nodes g)) (nodes g)"
    by simp
  then show "\<exists>ns. subseq ns (nodes g) \<and> search_by_text render g q = map entity_dict ns"
    unfolding search_by_text_def search_loop_filter by (intro exI conjI) simp_all
qed


section \<open>Properties of the admission handler\<close>

lemma map_of_add_if: "k \<noteq> k' \<Longrightarrow> map_of (add_if b k v r) k' = map_of r k'"
  by (simp add: add_if_def AList.update_conv')

lemma determine_some: "\<exists>t. determine_admission_type q = Some t"
  by (simp add: determine_admission_type_def)

text \<open>
  Claim C9. For every query the classifier returns a member of \<open>AdmissionType\<close>, it is
  \<open>DOMESTIC\<close> when the query holds none of the keywords, and the response of
  \<open>handle_admission_query\<close> never carries the key \<open>error\<close>: the branch that
  reports an undetermined admission type is dead.
\<close>

theorem admission_type_always_determined:
  "determine_admission_type q \<noteq> None \<and>
   (\<not> any_word_in type_keywords q \<longrightarrow> determine_admission_type q = Some DOMESTIC) \<and>
   map_of (handle_admission_query q) ''error'' = None"
proof (intro conjI)
  show "determine_admission_type q \<noteq> None"
    by (simp add: determine_admission_type_def)
  show "\<not> any_word_in type_keywords q \<longrightarrow> determine_admission_type q = Some DOMESTIC"
    by (simp add: determine_admission_type_def any_word_in_def type_keywords_def)
  obtain t where t: "determine_admission_type (lower q) = Some t"
    using determine_some by blast
  show "map_of (handle_admission_query q) ''error'' = None"
    unfolding handle_admission_query_def Let_def t option.case
    by (simp add: map_of_add_if)
qed

theorem admission_type_always_determined_witness:
  "\<not> any_word_in type_keywords ''how do i apply'' \<and>
   determine_admission_type ''how do i apply'' = Some DOMESTIC \<and>
   map_of (handle_admission_query ''how do i apply'') ''error'' = None"
proof -
  have n: "\<not> any_word_in type_keywords ''how do i apply''"
    by (simp add: any_word_in_def type_keywords_def)
  from admission_type_always_determined [of "''how do i apply''"] n show ?thesis by blast
qed



section \<open>Properties of the query analyzer\<close>









lemma is_followup_question_context: "is_followup_question t c1 = is_followup_question t c2"
  by (simp add: is_followup_question_def)








section \<open>Properties of the fallback ranker\<close>

lemma list_all_False: "list_all (\<lambda>i. False) xs \<Longrightarrow> xs = []"
  by (cases xs) auto

text \<open>
  Claim C7. Ranking against the empty list of candidates returns the empty list, whatever
  the libraries do: a fault of theirs and an index out of range are caught.
\<close>

theorem find_best_matches_empty: "find_best_matches lib query_text [] top_k = []"
proof (cases "encode lib []")
  case (Inl e)
  then show ?thesis by (simp add: find_best_matches_def)
next
  case enc: (Inr embs)
  show ?thesis
  proof (cases "cosine_similarity lib (get_query_embedding lib query_text) embs")
    case (Inl e)
    with enc show ?thesis by (simp add: find_best_matches_def)
  next
    case (Inr sims)
    with enc show ?thesis
      by (auto simp: find_best_matches_def Let_def dest: list_all_False)
  qed
qed

lemma slice_from_last:
  assumes "1 \<le> k"
  shows "slice_from (- k) xs = drop (length xs - nat k) xs"
proof -
  from assms have "nat (int (length xs) + - k) = length xs - nat k" by linarith
  with assms show ?thesis by (simp add: slice_from_def)
qed

text \<open>
  Claim C6, as amended. When the libraries answer, \<open>argsort\<close> returns the indices of
  the scores in ascending order of score, and \<open>top_k\<close> is at least one, the ranker
  returns the pairs of candidate and score of \<open>min top_k n\<close> distinct candidates, in
  descending order of score, and no candidate left out has a higher score than one
  returned. The candidates returned are the last \<open>top_k\<close> that \<open>argsort\<close> lists, in
  the reverse of its order; so when \<open>argsort\<close> is stable, listing equal scores in the
  order of the input, of two candidates returned with equal scores the one that stands
  later in the input comes first.
\<close>

theorem find_best_matches_top_k:
  assumes enc: "encode lib candidates = Inr embs"
    and cos: "cosine_similarity lib (get_query_embedding lib query_text) embs = Inr sims"
    and len: "length sims = length candidates"
    and dist: "distinct (argsort lib sims)"
    and full: "set (argsort lib sims) = {..<length sims}"
    and asc: "sorted (map (\<lambda>i. sims ! i) (argsort lib sims))"
    and k: "1 \<le> top_k"
  shows "\<exists>idx. idx = rev (drop (length candidates - nat top_k) (argsort lib sims)) \<and>
               find_best_matches lib query_text candidates top_k
                  = map (\<lambda>i. (candidates ! i, sims ! i)) idx \<and>
               distinct idx \<and>
               set idx \<subseteq> {..<length candidates} \<and>
               length idx = min (nat top_k) (length candidates) \<and>
               sorted (rev (map (\<lambda>i. sims ! i) idx)) \<and>
               (\<forall>j<length candidates. j \<notin> set idx \<longrightarrow> (\<forall>i\<in>set idx. sims ! j \<le> sims ! i)) \<and>
               (\<forall>p<length idx. idx ! p = argsort lib sims ! (length candidates - 1 - p)) \<and>
               (sorted_wrt (\<lambda>i j. sims ! i = sims ! j \<longrightarrow> i < j) (argsort lib sims)
                  \<longrightarrow> sorted_wrt (\<lambda>i j. sims ! i = sims ! j \<longrightarrow> j < i) idx)"
proof -
  let ?all = "argsort lib sims"
  let ?m = "length sims - nat top_k"
  let ?idx = "rev (drop ?m ?all)"
  have n: "length ?all = length sims"
    using dist full by (metis card_lessThan distinct_card)
  have e: "?idx = rev (drop (length candidates - nat top_k) (argsort lib sims))"
    by (simp add: len)
  have sub: "set ?idx \<subseteq> {..<length candidates}"
    using full len set_drop_subset [of ?m ?all] by auto
  have res: "find_best_matches lib query_text candidates top_k
               = map (\<lambda>i. (candidates ! i, sims ! i)) ?idx"
  proof -
    have "list_all (\<lambda>i. i < length candidates \<and> i < length sims) ?idx"
      using sub len unfolding list_all_iff by auto
    then show ?thesis
      by (simp add: find_best_matches_def enc cos Let_def slice_from_last [OF k] n)
  qed
  have d: "distinct ?idx" using dist by simp
  have l: "length ?idx = min (nat top_k) (length candidates)"
    using n len by auto
  have "sorted (drop ?m (map (\<lambda>i. sims ! i) ?all))"
    using asc by (rule sorted_wrt_drop)
  then have s: "sorted (rev (map (\<lambda>i. sims ! i) ?idx))"
    by (simp add: rev_map drop_map)
  have top: "\<forall>j<length candidates. j \<notin> set ?idx \<longrightarrow> (\<forall>i\<in>set ?idx. sims ! j \<le> sims ! i)"
  proof (intro allI impI ballI)
    fix j i
    assume j: "j < length candidates" and nj: "j \<notin> set ?idx" and i: "i \<in> set ?idx"
    from j len full have "j \<in> set ?all" by simp
    then have "j \<in> set (take ?m ?all) \<union> set (drop ?m ?all)"
      by (metis append_take_drop_id set_append)
    with nj have jt: "j \<in> set (take ?m ?all)" by simp
    from i have id: "i \<in> set (drop ?m ?all)" by simp
    have "sorted (map (\<lambda>i. sims ! i) (take ?m ?all) @ map (\<lambda>i. sims ! i) (drop ?m ?all))"
      using asc by (metis append_take_drop_id map_append)
    then have "\<forall>x\<in>set (map (\<lambda>i. sims ! i) (take ?m ?all)).
                 \<forall>y\<in>set (map (\<lambda>i. sims ! i) (drop ?m ?all)). x \<le> y"
      by (simp add: sorted_append)
    with jt id show "sims ! j \<le> sims ! i" by auto
  qed
  have pos: "\<forall>p<length ?idx. ?idx ! p = ?all ! (length candidates - 1 - p)"
  proof (intro allI impI)
    fix p
    assume p: "p < length ?idx"
    then have p': "p < length (drop ?m ?all)" by simp
    have "?idx ! p = drop ?m ?all ! (length (drop ?m ?all) - Suc p)"
      using p' by (rule rev_nth)
    also have "\<dots> = ?all ! (?m + (length (drop ?m ?all) - Suc p))"
      using p' n by (intro nth_drop) simp
    also have "?m + (length (drop ?m ?all) - Suc p) = length candidates - 1 - p"
      using p' n len by simp
    finally show "?idx ! p = ?all ! (length candidates - 1 - p)" .
  qed
  have tie: "sorted_wrt (\<lambda>i j. sims ! i = sims ! j \<longrightarrow> i < j) ?all
               \<longrightarrow> sorted_wrt (\<lambda>i j. sims ! i = sims ! j \<longrightarrow> j < i) ?idx"
  proof
    assume "sorted_wrt (\<lambda>i j. sims ! i = sims ! j \<longrightarrow> i < j) ?all"
    then have "sorted_wrt (\<lambda>i j. sims ! i = sims ! j \<longrightarrow> i < j) (drop ?m ?all)"
      by (rule sorted_wrt_drop)
    then have "sorted_wrt (\<lambda>j i. sims ! i = sims ! j \<longrightarrow> i < j) ?idx"
      by (simp only: sorted_wrt_rev)
    then show "sorted_wrt (\<lambda>i j. sims ! i = sims ! j \<longrightarrow> j < i) ?idx"
      by (rule sorted_wrt_mono_rel [rotated]) auto
  qed
  from e res d sub l s top pos tie show ?thesis by blast
qed

text \<open>
  The claim as stated fails twice on two candidates of equal score under a stable
  \<open>argsort\<close>: with \<open>top_k = 0\<close> the slice \<open>[-0:]\<close> is the whole list and both
  candidates are returned, and in either run the second candidate comes before the
  first.
\<close>

theorem find_best_matches_zero_and_ties:
  "find_best_matches tie_lib ''hostel'' [''hostel fees'', ''hostel rules''] 0
     = [(''hostel rules'', 9 / 10), (''hostel fees'', 9 / 10)] \<and>
   find_best_matches tie_lib ''hostel'' [''hostel fees'', ''hostel rules''] 3
     = [(''hostel rules'', 9 / 10), (''hostel fees'', 9 / 10)]"
  by (simp add: find_best_matches_def tie_lib_def table_lib_def get_query_embedding_def
      stable_argsort_def slice_from_def Let_def)

theorem find_best_matches_top_k_witness:
  "argsort ranked_lib [3 / 10, 9 / 10, 9 / 10, 7 / 10] = [0, 3, 1, 2] \<and>
   find_best_matches ranked_lib ''hostel''
       [''library hours'', ''hostel fees'', ''hostel rules'', ''mess menu''] 3
     = [(''hostel rules'', 9 / 10), (''hostel fees'', 9 / 10), (''mess menu'', 7 / 10)] \<and>
   sorted_wrt (\<lambda>i j. [3 / 10, 9 / 10, 9 / 10, 7 / 10 :: real] ! i
                        = [3 / 10, 9 / 10, 9 / 10, 7 / 10] ! j \<longrightarrow> j < i) [2, 1, 3 :: nat]"
proof -
  let ?c = "[''library hours'', ''hostel fees'', ''hostel rules'', ''mess menu'']"
  let ?s = "[3 / 10, 9 / 10, 9 / 10, 7 / 10 :: real]"
  have enc: "encode ranked_lib ?c = Inr ?c"
    by (simp add: ranked_lib_def table_lib_def)
  have cos: "cosine_similarity ranked_lib (get_query_embedding ranked_lib ''hostel'') ?c = Inr ?s"
    by (simp add: ranked_lib_def table_lib_def)
  have len: "length ?s = length ?c" by simp
  have a: "argsort ranked_lib ?s = [0, 3, 1, 2]"
    by (simp add: ranked_lib_def table_lib_def stable_argsort_def)
  have dist: "distinct (argsort ranked_lib ?s)" by (simp add: a)
  have full: "set (argsort ranked_lib ?s) = {..<length ?s}"
    by (auto simp: a)
  have asc: "sorted (map (\<lambda>i. ?s ! i) (argsort ranked_lib ?s))" by (simp add: a)
  have k: "(1::int) \<le> 3" by simp
  have stable: "sorted_wrt (\<lambda>i j. ?s ! i = ?s ! j \<longrightarrow> i < j) (argsort ranked_lib ?s)"
    by (simp add: a)
  have idx: "rev (drop (length ?c - nat 3) (argsort ranked_lib ?s)) = [2, 1, 3]"
    by (simp add: a)
  from find_best_matches_top_k [OF enc cos len dist full asc k] stable
  have "find_best_matches ranked_lib ''hostel'' ?c 3
          = map (\<lambda>i. (?c ! i, ?s ! i)) (rev (drop (length ?c - nat 3) (argsort ranked_lib ?s))) \<and>
        sorted_wrt (\<lambda>i j. ?s ! i = ?s ! j \<longrightarrow> j < i)
          (rev (drop (length ?c - nat 3) (argsort ranked_lib ?s)))"
    by blast
  then have "find_best_matches ranked_lib ''hostel'' ?c 3
          = map (\<lambda>i. (?c ! i, ?s ! i)) [2, 1, 3] \<and>
        sorted_wrt (\<lambda>i j. ?s ! i = ?s ! j \<longrightarrow> j < i) [2, 1, 3]"
    by (simp only: idx)
  then have "find_best_matches ranked_lib ''hostel'' ?c 3
          = [(''hostel rules'', 9 / 10), (''hostel fees'', 9 / 10), (''mess menu'', 7 / 10)] \<and>
        sorted_wrt (\<lambda>i j. ?s ! i = ?s ! j \<longrightarrow> j < i) [2, 1, 3]"
    by simp
  with a show ?thesis by (intro conjI) simp_all
qed

section \<open>Properties of the resolution engine\<close>

text \<open>
  The entities are looked up in extraction order and the first confident response is
  returned; a hit has confidence \<open>1.0\<close> when the intent selects fixed fields or the
  entity has no attribute named \<open>confidence\<close>.
\<close>

lemma entity_matches_first:
  assumes "\<forall>e'\<in>set pre. \<exists>r'. get_entity_info kb e' w = Inr r' \<and> confident r' = Inr False"
    and "get_entity_info kb e w = Inr r"
    and "confident r = Inr True"
  shows "entity_matches kb (pre @ e # post) w = Inr (Some r)"
  using assms by (induction pre) auto

lemma find_best_match_first:
  assumes "entities a = pre @ e # post"
    and "\<forall>e'\<in>set pre. \<exists>r'. get_entity_info kb e' (intent a) = Inr r' \<and> confident r' = Inr False"
    and "get_entity_info kb e (intent a) = Inr r"
    and "confident r = Inr True"
  shows "find_best_match lib render kb a = Inr r"
  using entity_matches_first [OF assms(2-4), of post]
  by (simp add: find_best_match_def assms(1))

lemma entity_response_confidence:
  assumes "entity_response category entity w d = Inr r"
    and "w \<in> set [''location'', ''description'', ''facilities'', ''contact'']
         \<or> map_of d ''confidence'' = None"
  shows "map_of r ''confidence'' = Some (VFloat 1)"
proof (cases "w \<in> set [''location'', ''description'', ''facilities'', ''contact'']")
  case True
  with assms(1) show ?thesis
    by (auto simp: entity_response_def Let_def map_of_dict_update map_add_def
        split: if_splits sum.splits)
next
  case False
  with assms(2) have none: "map_of d ''confidence'' = None" by blast
  then have nd: "''confidence'' \<notin> fst ` set d" by (simp add: map_of_eq_None_iff)
  define F where "F = filter (\<lambda>kv. fst kv \<notin> set [''id'', ''type''] \<and> \<not> is_dict (snd kv)) d"
  have "fst ` set (rev F) \<subseteq> fst ` set d" by (auto simp: F_def)
  with nd have "''confidence'' \<notin> fst ` set (rev F)" by blast
  then have n: "map_of (rev F) ''confidence'' = None"
    by (simp only: map_of_eq_None_iff not_False_eq_True)
  from False assms(1)
  have "r = dict_update [(''type'', VStr w), (''entity'', VStr entity), (''confidence'', VFloat 1)] F"
    unfolding F_def by (auto simp: entity_response_def Let_def split: if_splits)
  then show ?thesis
    by (simp add: map_of_dict_update map_add_def n)
qed

text \<open>
  Claim C5. An exact hit is claimed to have confidence \<open>1.0\<close>. For an intent outside
  location, description, facilities and contact the response is updated with the
  attributes of the entity, \<open>id\<close> and \<open>type\<close> excepted, so an attribute named
  \<open>confidence\<close> replaces the \<open>1.0\<close>: the entity \<open>Tech Park\<close> is a key of the
  knowledge base, its lookup has confidence \<open>0\<close>, and the loop over the entities
  passes it by.
\<close>

theorem exact_hit_confidence_overwritten:
  "map_of (snd (hd scored_kb)) ''Tech Park'' = Some [(''confidence'', VInt 0)] \<and>
   get_entity_info scored_kb ''Tech Park'' ''general''
     = Inr [(''type'', VStr ''general''), (''entity'', VStr ''Tech Park''),
            (''confidence'', VInt 0)] \<and>
   entity_matches scored_kb (entities tech_park_query) (intent tech_park_query) = Inr None"
  by (simp add: scored_kb_def tech_park_query_def entity_response_def dict_update_def
      is_dict_def confident_def)

lemma suggestions_nonempty:
  "xs \<noteq> [] \<Longrightarrow> concat (map (\<lambda>x. entity_suggestions (fst x)) xs) \<noteq> []"
  by (cases xs) (simp_all add: entity_suggestions_def)

lemma sort_key_Nil_iff: "sort_key f xs = [] \<longleftrightarrow> xs = []"
  by (metis length_0_conv length_sort)

lemma similar_entities_set:
  "set (similar_entities lib kb a) =
     {(kb_entity, get_semantic_similarity lib entity kb_entity) | entity cat kb_entity.
        entity \<in> set (entities a) \<and> cat \<in> set kb \<and> kb_entity \<in> set (map fst (snd cat)) \<and>
        get_semantic_similarity lib entity kb_entity > 5 / 10}"
  unfolding similar_entities_def Let_def
  by (auto split: if_splits) force+

lemma suggestions_length:
  "xs \<noteq> [] \<Longrightarrow> 3 \<le> length (concat (map (\<lambda>x. entity_suggestions (fst x)) xs))"
  by (cases xs) (simp_all add: entity_suggestions_def)

text \<open>
  Claim C8. The fallback response has the type \<open>fallback\<close>, the confidence \<open>0.0\<close>
  and between one and five suggestions. When no entity of the knowledge base has a
  similarity above \<open>0.5\<close> with an entity of the query, the suggestions are the five
  fixed questions; when one has, there are at least three suggestions and each is a
  question about an entity of the knowledge base whose similarity is above \<open>0.5\<close>.
\<close>

theorem fallback_response_suggestions:
  "map_of (generate_fallback_response lib kb a) ''type'' = Some (VStr ''fallback'') \<and>
   map_of (generate_fallback_response lib kb a) ''confidence'' = Some (VFloat 0) \<and>
   (\<exists>ss. map_of (generate_fallback_response lib kb a) ''suggestions'' = Some (strs ss) \<and>
         ss \<noteq> [] \<and> length ss \<le> 5 \<and>
         ((\<forall>entity\<in>set (entities a). \<forall>cat\<in>set kb. \<forall>kb_entity\<in>set (map fst (snd cat)).
              get_semantic_similarity lib entity kb_entity \<le> 5 / 10)
            \<longrightarrow> ss = generic_suggestions) \<and>
         ((\<exists>entity\<in>set (entities a). \<exists>cat\<in>set kb. \<exists>kb_entity\<in>set (map fst (snd cat)).
              get_semantic_similarity lib entity kb_entity > 5 / 10)
            \<longrightarrow> 3 \<le> length ss \<and>
                (\<forall>s\<in>set ss.
                   \<exists>entity\<in>set (entities a). \<exists>cat\<in>set kb. \<exists>kb_entity\<in>set (map fst (snd cat)).
                     get_semantic_similarity lib entity kb_entity > 5 / 10 \<and>
                     s \<in> set (entity_suggestions kb_entity))))"
proof (intro conjI)
  show "map_of (generate_fallback_response lib kb a) ''type'' = Some (VStr ''fallback'')"
    by (simp add: generate_fallback_response_def Let_def)
  show "map_of (generate_fallback_response lib kb a) ''confidence'' = Some (VFloat 0)"
    by (simp add: generate_fallback_response_def Let_def)
  let ?above = "\<lambda>entity cat kb_entity. get_semantic_similarity lib entity kb_entity > 5 / 10"
  let ?sim = "similar_entities lib kb a"
  let ?ranked = "sort_key (\<lambda>x. - snd x) ?sim"
  let ?sugg = "if ?ranked \<noteq> []
               then concat (map (\<lambda>x. entity_suggestions (fst x)) (take 3 ?ranked))
               else generic_suggestions"
  have m: "map_of (generate_fallback_response lib kb a) ''suggestions'' = Some (strs (take 5 ?sugg))"
    by (simp add: generate_fallback_response_def Let_def)
  have ne: "?sugg \<noteq> []"
  proof (cases "?ranked = []")
    case True
    then show ?thesis by (simp add: generic_suggestions_def)
  next
    case False
    then have "take 3 ?ranked \<noteq> []" by simp
    from suggestions_nonempty [OF this] False show ?thesis by simp
  qed
  then have ne5: "take 5 ?sugg \<noteq> []" by simp
  have le: "length (take 5 ?sugg) \<le> 5" by simp
  have low: "(\<forall>entity\<in>set (entities a). \<forall>cat\<in>set kb. \<forall>kb_entity\<in>set (map fst (snd cat)).
                get_semantic_similarity lib entity kb_entity \<le> 5 / 10)
             \<longrightarrow> take 5 ?sugg = generic_suggestions"
  proof
    assume h: "\<forall>entity\<in>set (entities a). \<forall>cat\<in>set kb. \<forall>kb_entity\<in>set (map fst (snd cat)).
                get_semantic_similarity lib entity kb_entity \<le> 5 / 10"
    have "set ?sim = {}"
      unfolding similar_entities_set using h by fastforce
    then have "?sim = []" by simp
    then show "take 5 ?sugg = generic_suggestions"
      by (simp add: generic_suggestions_def)
  qed
  have high: "(\<exists>entity\<in>set (entities a). \<exists>cat\<in>set kb. \<exists>kb_entity\<in>set (map fst (snd cat)).
                get_semantic_similarity lib entity kb_entity > 5 / 10)
             \<longrightarrow> 3 \<le> length (take 5 ?sugg) \<and>
                 (\<forall>s\<in>set (take 5 ?sugg).
                    \<exists>entity\<in>set (entities a). \<exists>cat\<in>set kb. \<exists>kb_entity\<in>set (map fst (snd cat)).
                      get_semantic_similarity lib entity kb_entity > 5 / 10 \<and>
                      s \<in> set (entity_suggestions kb_entity))"
  proof (intro impI conjI ballI)
    assume h: "\<exists>entity\<in>set (entities a). \<exists>cat\<in>set kb. \<exists>kb_entity\<in>set (map fst (snd cat)).
                get_semantic_similarity lib entity kb_entity > 5 / 10"
    then obtain entity cat kb_entity where
      "entity \<in> set (entities a)" "cat \<in> set kb" "kb_entity \<in> set (map fst (snd cat))"
      "get_semantic_similarity lib entity kb_entity > 5 / 10"
      by blast
    then have "(kb_entity, get_semantic_similarity lib entity kb_entity) \<in> set ?sim"
      unfolding similar_entities_set by blast
    then have "?sim \<noteq> []" by auto
    then have r: "?ranked \<noteq> []" by (simp add: sort_key_Nil_iff)
    then have t: "take 3 ?ranked \<noteq> []" by simp
    from r have sg: "?sugg = concat (map (\<lambda>x. entity_suggestions (fst x)) (take 3 ?ranked))"
      by simp
    from suggestions_length [OF t] have "3 \<le> length ?sugg"
      by (simp only: sg)
    then show "3 \<le> length (take 5 ?sugg)" by simp
    fix s
    assume "s \<in> set (take 5 ?sugg)"
    then have "s \<in> set ?sugg" by (rule in_set_takeD)
    then have "s \<in> set (concat (map (\<lambda>x. entity_suggestions (fst x)) (take 3 ?ranked)))"
      by (simp only: sg)
    then obtain x where x: "x \<in> set (take 3 ?ranked)" "s \<in> set (entity_suggestions (fst x))"
      by auto
    from x(1) have "x \<in> set ?ranked" by (rule in_set_takeD)
    then have "x \<in> set ?sim" by simp
    then obtain entity' cat' kb_entity' where
      e: "entity' \<in> set (entities a)" "cat' \<in> set kb" "kb_entity' \<in> set (map fst (snd cat'))"
         "get_semantic_similarity lib entity' kb_entity' > 5 / 10"
         "x = (kb_entity', get_semantic_similarity lib entity' kb_entity')"
      unfolding similar_entities_set by blast
    from e(5) x(2) have "s \<in> set (entity_suggestions kb_entity')" by simp
    with e(1-4)
    show "\<exists>entity\<in>set (entities a). \<exists>cat\<in>set kb. \<exists>kb_entity\<in>set (map fst (snd cat)).
            get_semantic_similarity lib entity kb_entity > 5 / 10 \<and>
            s \<in> set (entity_suggestions kb_entity)"
      by blast
  qed
  from m ne5 le low high
  show "\<exists>ss. map_of (generate_fallback_response lib kb a) ''suggestions'' = Some (strs ss) \<and>
         ss \<noteq> [] \<and> length ss \<le> 5 \<and>
         ((\<forall>entity\<in>set (entities a). \<forall>cat\<in>set kb. \<forall>kb_entity\<in>set (map fst (snd cat)).
              get_semantic_similarity lib entity kb_entity \<le> 5 / 10)
            \<longrightarrow> ss = generic_suggestions) \<and>
         ((\<exists>entity\<in>set (entities a). \<exists>cat\<in>set kb. \<exists>kb_entity\<in>set (map fst (snd cat)).
              get_semantic_similarity lib entity kb_entity > 5 / 10)
            \<longrightarrow> 3 \<le> length ss \<and>
                (\<forall>s\<in>set ss.
                   \<exists>entity\<in>set (entities a). \<exists>cat\<in>set kb. \<exists>kb_entity\<in>set (map fst (snd cat)).
                     get_semantic_similarity lib entity kb_entity > 5 / 10 \<and>
                     s \<in> set (entity_suggestions kb_entity)))"
    by (intro exI [of _ "take 5 ?sugg"] conjI)
qed

theorem fallback_response_suggestions_witness:
  "get_semantic_similarity floor_lib ''Library'' ''Tech Park'' = 3 / 10 \<and>
   get_semantic_similarity floor_lib ''Library'' ''Central Library'' = 5 / 10 \<and>
   map_of (generate_fallback_response floor_lib plain_kb library_query) ''suggestions''
     = Some (strs generic_suggestions) \<and>
   get_semantic_similarity near_lib ''Library'' ''Central Library'' = 11 / 20 \<and>
   map_of (generate_fallback_response near_lib plain_kb library_query) ''suggestions''
     = Some (strs (entity_suggestions ''Central Library'')) \<and>
   (\<exists>ss. map_of (generate_fallback_response near_lib plain_kb library_query) ''suggestions''
            = Some (strs ss) \<and> 3 \<le> length ss)"
proof -
  have f1: "get_semantic_similarity floor_lib ''Library'' ''Tech Park'' = 3 / 10"
    by (simp add: get_semantic_similarity_def floor_lib_def table_lib_def)
  have f2: "get_semantic_similarity floor_lib ''Library'' ''Central Library'' = 5 / 10"
    by (simp add: get_semantic_similarity_def floor_lib_def table_lib_def)
  have n1: "get_semantic_similarity near_lib ''Library'' ''Tech Park'' = 3 / 10"
    by (simp add: get_semantic_similarity_def near_lib_def table_lib_def)
  have n2: "get_semantic_similarity near_lib ''Library'' ''Central Library'' = 11 / 20"
    by (simp add: get_semantic_similarity_def near_lib_def table_lib_def)
  have low: "\<forall>entity\<in>set (entities library_query). \<forall>cat\<in>set plain_kb.
               \<forall>kb_entity\<in>set (map fst (snd cat)).
                 get_semantic_similarity floor_lib entity kb_entity \<le> 5 / 10"
    by (simp add: library_query_def plain_kb_def f1 f2)
  have high: "\<exists>entity\<in>set (entities library_query). \<exists>cat\<in>set plain_kb.
                \<exists>kb_entity\<in>set (map fst (snd cat)).
                  get_semantic_similarity near_lib entity kb_entity > 5 / 10"
    by (simp add: library_query_def plain_kb_def n1 n2)
  from fallback_response_suggestions [of floor_lib plain_kb library_query] low
  have g: "map_of (generate_fallback_response floor_lib plain_kb library_query) ''suggestions''
             = Some (strs generic_suggestions)"
    by blast
  from fallback_response_suggestions [of near_lib plain_kb library_query] high
  have e: "\<exists>ss. map_of (generate_fallback_response near_lib plain_kb library_query) ''suggestions''
             = Some (strs ss) \<and> 3 \<le> length ss"
    by blast
  have sim: "similar_entities near_lib plain_kb library_query = [(''Central Library'', 11 / 20)]"
    by (simp add: similar_entities_def library_query_def plain_kb_def n1 n2)
  have c: "map_of (generate_fallback_response near_lib plain_kb library_query) ''suggestions''
             = Some (strs (entity_suggestions ''Central Library''))"
    by (simp add: generate_fallback_response_def sim entity_suggestions_def)
  from f1 f2 g n2 c e show ?thesis by (intro conjI)
qed

section \<open>Properties of the session context store\<close>





end
